theory Spec2Isabelle
  imports Main "HOL-Library.Word"
begin

unbundle bit_operations_syntax

section \<open>The wait timer (the eBPF program of pg\_trace\_waits.py)\<close>

text \<open>
  The kernel side of \<^verbatim>\<open>pg_trace_waits.py\<close> is a C program with two probe handlers and
  three tables. \<^verbatim>\<open>struct wait_event_t\<close> is the record handed to user space; the two
  \<^verbatim>\<open>BPF_HASH\<close> tables are maps from a 32-bit key to a 64-bit value; the perf output
  \<^verbatim>\<open>wait_events\<close> is the list of the records submitted so far, oldest first.
  The two helpers a handler calls, \<^verbatim>\<open>bpf_get_current_pid_tgid()\<close> and
  \<^verbatim>\<open>bpf_ktime_get_ns()\<close>, read the environment: their results are arguments of the
  model.

  A \<^verbatim>\<open>BPF_HASH\<close> table has a bounded number of entries (10240 unless the declaration
  says otherwise); the bound is the parameter \<open>max_entries\<close> of the model. \<^verbatim>\<open>update\<close>
  stores the value when the key is present or the table has room, and otherwise fails
  and leaves the table as it was; the handlers do not look at its result.
\<close>

type_synonym u32 = "32 word"
type_synonym u64 = "64 word"

record wait_event_t =
  timestamp_ns :: u64
  pid :: u32
  tid :: u32
  cursor_id :: u64
  wait_event_info :: u32
  duration_ns :: u64
  wait_name :: "8 word list"

record bpf_state =
  wait_starts :: "u32 \<rightharpoonup> u64"
  pid_to_cursor :: "u32 \<rightharpoonup> u64"
  wait_events :: "wait_event_t list"

definition table_update :: "nat \<Rightarrow> ('k \<rightharpoonup> 'v) \<Rightarrow> 'k \<Rightarrow> 'v \<Rightarrow> ('k \<rightharpoonup> 'v)" where
  "table_update max_entries m k v =
     (if k \<in> dom m \<or> card (dom m) < max_entries then m(k \<mapsto> v) else m)"

text \<open>\<^verbatim>\<open>struct wait_event_t event = {};\<close>: every field zero, the name buffer 64 zero bytes.\<close>

definition zero_event :: wait_event_t where
  "zero_event =
     \<lparr>timestamp_ns = 0, pid = 0, tid = 0, cursor_id = 0, wait_event_info = 0,
      duration_ns = 0, wait_name = replicate 64 0\<rparr>"

text \<open>
  \<^verbatim>\<open>trace_wait_start(ctx, wait_event_info)\<close>: the thread id is the low half of
  \<^verbatim>\<open>pid_tgid\<close>; the start time is stored under it. The argument
  \<^verbatim>\<open>wait_event_info\<close> is not used by the body.
\<close>

definition trace_wait_start ::
  "nat \<Rightarrow> u64 \<Rightarrow> u64 \<Rightarrow> u32 \<Rightarrow> bpf_state \<Rightarrow> int \<times> bpf_state" where
  "trace_wait_start max_entries pid_tgid ktime info s =
     (let t = (ucast pid_tgid :: u32);
          ts = ktime
      in (0, s\<lparr>wait_starts := table_update max_entries (wait_starts s) t ts\<rparr>))"

text \<open>
  \<^verbatim>\<open>trace_wait_end(ctx)\<close>: no entry for the thread, return at once; otherwise the
  duration is the 64-bit difference; below 1000 the event is skipped (\<^verbatim>\<open>goto cleanup\<close>);
  otherwise a zeroed event is filled in and submitted; \<^verbatim>\<open>cleanup\<close> deletes the entry.
\<close>

definition trace_wait_end :: "u64 \<Rightarrow> u64 \<Rightarrow> bpf_state \<Rightarrow> int \<times> bpf_state" where
  "trace_wait_end pid_tgid ktime s =
     (let p = (ucast (drop_bit 32 pid_tgid) :: u32);
          t = (ucast pid_tgid :: u32)
      in case wait_starts s t of
           None \<Rightarrow> (0, s)
         | Some start_ts \<Rightarrow>
             (let end_ts = ktime;
                  d = end_ts - start_ts;
                  s1 = (if d < 1000 then s
                        else
                          (let event = zero_event\<lparr>timestamp_ns := end_ts, pid := p, tid := t,
                                                  duration_ns := d\<rparr>;
                               event = (case pid_to_cursor s p of
                                          Some c \<Rightarrow> event\<lparr>cursor_id := c\<rparr>
                                        | None \<Rightarrow> event)
                           in s\<lparr>wait_events := wait_events s @ [event]\<rparr>))
              in (0, s1\<lparr>wait_starts := (wait_starts s1)(t := None)\<rparr>)))"

text \<open>The two handlers for buffer reads (defined in the program, attached to no probe).\<close>

definition trace_buffer_read_start ::
  "nat \<Rightarrow> u64 \<Rightarrow> u64 \<Rightarrow> bpf_state \<Rightarrow> int \<times> bpf_state" where
  "trace_buffer_read_start max_entries pid_tgid ktime s =
     (let t = (ucast pid_tgid :: u32);
          ts = ktime
      in (0, s\<lparr>wait_starts := table_update max_entries (wait_starts s) t ts\<rparr>))"

definition trace_buffer_read_done :: "u64 \<Rightarrow> u64 \<Rightarrow> bpf_state \<Rightarrow> int \<times> bpf_state" where
  "trace_buffer_read_done pid_tgid ktime s = trace_wait_end pid_tgid ktime s"

text \<open>The events one call of \<^verbatim>\<open>trace_wait_end\<close> submits to the perf output.\<close>

definition emitted :: "u64 \<Rightarrow> u64 \<Rightarrow> bpf_state \<Rightarrow> wait_event_t list" where
  "emitted pid_tgid ktime s =
     drop (length (wait_events s)) (wait_events (snd (trace_wait_end pid_tgid ktime s)))"

text \<open>A session of the timer: the probe hits in the order they happen.\<close>

datatype probe_hit =
    WaitStart u64 u64 u32
  | WaitEnd u64 u64
  | BufferReadStart u64 u64
  | BufferReadDone u64 u64

fun hit :: "nat \<Rightarrow> probe_hit \<Rightarrow> bpf_state \<Rightarrow> bpf_state" where
  "hit n (WaitStart pt k info) s = snd (trace_wait_start n pt k info s)"
| "hit n (WaitEnd pt k) s = snd (trace_wait_end pt k s)"
| "hit n (BufferReadStart pt k) s = snd (trace_buffer_read_start n pt k s)"
| "hit n (BufferReadDone pt k) s = snd (trace_buffer_read_done pt k s)"

fun run :: "nat \<Rightarrow> probe_hit list \<Rightarrow> bpf_state \<Rightarrow> bpf_state" where
  "run n [] s = s"
| "run n (h # hs) s = run n hs (hit n h s)"

definition lookup_cursor :: "bpf_state \<Rightarrow> u32 \<Rightarrow> u64" where
  "lookup_cursor s p = (case pid_to_cursor s p of Some c \<Rightarrow> c | None \<Rightarrow> 0)"

definition init_state :: bpf_state where
  "init_state = \<lparr>wait_starts = Map.empty, pid_to_cursor = Map.empty, wait_events = []\<rparr>"

text \<open>The default size of a table, and two states used as concrete inputs below.\<close>

definition default_entries :: nat where
  "default_entries = 10240"


definition one_pending :: bpf_state where
  "one_pending = init_state\<lparr>wait_starts := [5 \<mapsto> 1000]\<rparr>"

definition cursor_pending :: bpf_state where
  "cursor_pending = init_state\<lparr>wait_starts := [5 \<mapsto> 0], pid_to_cursor := [100 \<mapsto> 42]\<rparr>"

section \<open>The decoder and formatter (user space of pg\_trace\_waits.py)\<close>

text \<open>
  \<^verbatim>\<open>WAIT_EVENT_NAMES\<close> is the dictionary of the source, in its order. A Python integer
  is an \<^typ>\<open>int\<close>; the fields of a decoded \<^verbatim>\<open>WaitEvent\<close> are read with \<^const>\<open>uint\<close>
  and \<^const>\<open>unat\<close>.
\<close>

definition WAIT_EVENT_NAMES :: "(int \<times> string) list" where
  "WAIT_EVENT_NAMES =
    [(0x01000001, ''LockManager''),
     (0x02000001, ''BufferPin''),
     (0x03000001, ''ActivityMain''),
     (0x03000002, ''ActivityAutovacuum''),
     (0x04000001, ''ClientRead''),
     (0x04000002, ''ClientWrite''),
     (0x05000001, ''DataFileRead''),
     (0x05000002, ''DataFileWrite''),
     (0x05000003, ''DataFileExtend''),
     (0x05000004, ''DataFileFlush''),
     (0x05000005, ''DataFileSync''),
     (0x05000006, ''WALWrite''),
     (0x05000007, ''WALSync''),
     (0x06000001, ''MessageQueueSend''),
     (0x06000002, ''MessageQueueReceive'')]"

text \<open>
  Digits of a natural number in base \<open>b\<close>, most significant first, lower case
  (\<^verbatim>\<open>str\<close> for base 10, the \<^verbatim>\<open>x\<close> format for base 16; no other base is used).
\<close>

definition digit_char :: "nat \<Rightarrow> char" where
  "digit_char d = ''0123456789abcdef'' ! d"

function digits :: "nat \<Rightarrow> nat \<Rightarrow> string" where
  "digits b n = (if b < 2 \<or> n < b then [digit_char n] else digits b (n div b) @ [digit_char (n mod b)])"
  by pat_completeness auto
termination
  by (relation "measure snd") auto

declare digits.simps [simp del]

text \<open>
  The format \<^verbatim>\<open>08x\<close>: lower-case hexadecimal, padded with zeros to a width of at
  least 8, the sign counted in the width.
\<close>

definition zero_pad :: "nat \<Rightarrow> string \<Rightarrow> string" where
  "zero_pad w s = replicate (w - length s) (CHR ''0'') @ s"

definition format_08x :: "int \<Rightarrow> string" where
  "format_08x x =
     (if x < 0 then CHR ''-'' # zero_pad 7 (digits 16 (nat (- x)))
      else zero_pad 8 (digits 16 (nat x)))"

definition str_int :: "int \<Rightarrow> string" where
  "str_int x = (if x < 0 then CHR ''-'' # digits 10 (nat (- x)) else digits 10 (nat x))"

text \<open>
  \<^verbatim>\<open>WAIT_EVENT_NAMES.get(wait_event_info, f'Unknown:0x{wait_event_info:08x}')\<close>.
\<close>

definition get_wait_event_name :: "int \<Rightarrow> string" where
  "get_wait_event_name info =
     (case map_of WAIT_EVENT_NAMES info of
        Some name \<Rightarrow> name
      | None \<Rightarrow> ''Unknown:0x'' @ format_08x info)"

text \<open>
  \<^verbatim>\<open>event.duration_ns / 1000\<close> is Python's true division of two integers: the IEEE
  binary64 number nearest the exact quotient, ties to the even mantissa. The model keeps
  the result exactly, as a pair \<open>(m, e)\<close> that stands for \<open>m * 2 ^ e\<close>, with a mantissa
  of 53 bits; \<open>rne_div a b\<close> is the quotient \<open>a / b\<close> rounded to the nearest natural
  number, ties to even. The quotients met here (a 64-bit value over 1000) are in the
  normal range of binary64, so neither overflow nor subnormal numbers are modelled.
  The format \<^verbatim>\<open>.0f\<close> prints the nearest integer of the binary64 value, ties to even.
\<close>

fun bit_length :: "nat \<Rightarrow> nat" where
  "bit_length n = (if n = 0 then 0 else Suc (bit_length (n div 2)))"

declare bit_length.simps [simp del]

definition rne_div :: "nat \<Rightarrow> nat \<Rightarrow> nat" where
  "rne_div a b =
     (let q = a div b; r = a mod b
      in if 2 * r < b then q
         else if b < 2 * r then q + 1
         else if even q then q else q + 1)"

definition true_div :: "nat \<Rightarrow> nat \<Rightarrow> nat \<times> int" where
  "true_div a b =
     (if a = 0 then (0, 0)
      else
        (let s = int (bit_length a) - int (bit_length b);
             l = (if b * 2 ^ nat s \<le> a * 2 ^ nat (- s) then s else s - 1);
             e = l - 52
         in (rne_div (a * 2 ^ nat (- e)) (b * 2 ^ nat e), e)))"

definition format_0f :: "nat \<times> int \<Rightarrow> string" where
  "format_0f x = (case x of (m, e) \<Rightarrow> digits 10 (rne_div (m * 2 ^ nat e) (2 ^ nat (- e))))"


text \<open>
  \<^verbatim>\<open>print_wait_event(cpu, data, size)\<close>: the decoded event is the first argument; the
  wall clock is read from the environment, so the result of
  \<^verbatim>\<open>datetime.now().strftime('%Y-%m-%d %H:%M:%S.%f')\<close> is the second; the third is what
  standard output holds so far, and the result what it holds after the \<^verbatim>\<open>print\<close>.
\<close>

definition print_wait_event :: "wait_event_t \<Rightarrow> string \<Rightarrow> string \<Rightarrow> string" where
  "print_wait_event event now stdout =
     (let timestamp = take (length now - 3) now;
          duration_us = true_div (unat (duration_ns event)) 1000;
          name = get_wait_event_name (uint (wait_event_info event))
      in if cursor_id event > 0
         then stdout @ ''WAIT #'' @ str_int (uint (cursor_id event)) @ '': nam='' @ [CHR 0x27]
              @ name @ [CHR 0x27] @ '' ela='' @ format_0f duration_us @ '' us tim='' @ timestamp
              @ [CHR 0x0A]
         else stdout @ ''WAIT [PID '' @ str_int (uint (pid event)) @ '']: nam='' @ [CHR 0x27]
              @ name @ [CHR 0x27] @ '' ela='' @ format_0f duration_us @ '' us tim='' @ timestamp
              @ [CHR 0x0A])"


text \<open>Two events used as concrete inputs below.\<close>

definition sample_event :: wait_event_t where
  "sample_event =
     \<lparr>timestamp_ns = 5000, pid = 100, tid = 5, cursor_id = 42, wait_event_info = 0,
      duration_ns = 5000, wait_name = replicate 64 0\<rparr>"

definition sample_read_event :: wait_event_t where
  "sample_read_event =
     \<lparr>timestamp_ns = 9000, pid = 100, tid = 5, cursor_id = 0, wait_event_info = 0x05000001,
      duration_ns = 2500, wait_name = replicate 64 0\<rparr>"


section \<open>The orchestrator (pg\_trace\_orchestrate.py)\<close>

text \<open>
  The file system is a map from a path to the text of the file there (the characters
  the file decodes to); directories, permissions and decoding errors are not modelled,
  so opening a file that exists succeeds. The script runs on Linux, where writing in
  text mode leaves a line feed as it is.
\<close>

type_synonym path = string
type_synonym file_system = "path \<rightharpoonup> string"

definition LF :: char where "LF = CHR 0x0A"
definition CR :: char where "CR = CHR 0x0D"

text \<open>
  \<^verbatim>\<open>open(path, 'r')\<close> followed by \<^verbatim>\<open>read()\<close>: Python's text mode with universal
  newlines, which hands over a carriage return followed by a line feed, and a carriage
  return alone, as one line feed.
\<close>

fun universal_newlines :: "string \<Rightarrow> string" where
  "universal_newlines [] = []"
| "universal_newlines [c] = (if c = CR then [LF] else [c])"
| "universal_newlines (c # d # cs) =
     (if c = CR then
        (if d = LF then LF # universal_newlines cs else LF # universal_newlines (d # cs))
      else c # universal_newlines (d # cs))"

text \<open>
  \<^verbatim>\<open>merge_traces(extension_file, wait_file, output_file)\<close>: the output file is opened
  for writing first, which creates or empties it; the two \<^verbatim>\<open>os.path.exists\<close> tests and
  the two reads see that file system; what was written reaches the output file when it is
  closed. So a read of the output file itself, while it is being written, finds it empty:
  that is exact for the first read, and for the second as long as the text written so far
  stays in the writer's buffer; the theorems below take the output path to differ from
  both input paths. The messages printed to standard output are left out.
\<close>

definition merge_traces :: "path \<Rightarrow> path \<Rightarrow> path \<Rightarrow> file_system \<Rightarrow> file_system" where
  "merge_traces extension_file wait_file output_file fs =
     (let fs1 = fs(output_file \<mapsto> []);
          out = [];
          out = (case fs1 extension_file of
                   Some ef_text \<Rightarrow> out @ universal_newlines ef_text
                 | None \<Rightarrow> out);
          out = (case fs1 wait_file of
                   Some wf_text \<Rightarrow>
                     out @ ([LF] @ replicate 70 (CHR ''='') @ [LF])
                       @ (''WAIT EVENTS (from eBPF)'' @ [LF])
                       @ (replicate 70 (CHR ''='') @ [LF, LF])
                       @ universal_newlines wf_text
                 | None \<Rightarrow> out)
      in fs1(output_file \<mapsto> out))"

text \<open>
  The delimiter block as the specification words it: a line of 70 \<open>=\<close>, the line
  \<^verbatim>\<open>WAIT EVENTS (from eBPF)\<close>, a line of 70 \<open>=\<close>, a blank line.
\<close>

definition delimiter_block :: string where
  "delimiter_block =
     replicate 70 (CHR ''='') @ [LF] @ ''WAIT EVENTS (from eBPF)'' @ [LF]
       @ replicate 70 (CHR ''='') @ [LF] @ [LF]"

text \<open>
  \<^verbatim>\<open>main\<close> up to the monitoring loop. The parsed arguments are a record (the option
  \<^verbatim>\<open>--output\<close> is absent or a string); whether the tracer script exists and what
  \<^verbatim>\<open>wait_process.poll()\<close> returns after the two seconds are read from the environment.
  \<^verbatim>\<open>sys.exit(1)\<close> is the outcome \<open>SysExit 1\<close>; reaching the monitoring loop is the
  outcome \<open>Running\<close> with the two paths computed on the way.
  \<^verbatim>\<open>args.output or f"{args.trace_file}.complete"\<close> takes the default for an absent and
  for an empty \<^verbatim>\<open>--output\<close>.
\<close>

record args =
  pid_arg :: int
  trace_file :: path
  output_arg :: "path option"
  wait_only :: bool

record session =
  session_output_file :: path
  session_wait_file :: path

datatype outcome = SysExit int | Running session

definition main_startup :: "file_system \<Rightarrow> bool \<Rightarrow> int option \<Rightarrow> args \<Rightarrow> outcome" where
  "main_startup fs script_exists poll a =
     (if fs (trace_file a) = None then SysExit 1
      else
        (let out = (case output_arg a of
                      None \<Rightarrow> trace_file a @ ''.complete''
                    | Some p \<Rightarrow> if p = [] then trace_file a @ ''.complete'' else p);
             waits = ''/tmp/pg_trace_waits_'' @ str_int (pid_arg a) @ ''.log''
         in if \<not> script_exists then SysExit 1
            else if poll \<noteq> None then SysExit 1
            else Running \<lparr>session_output_file = out, session_wait_file = waits\<rparr>))"

text \<open>The guard under \<^verbatim>\<open>__main__\<close>: not root, exit 1.\<close>

definition script_entry ::
  "nat \<Rightarrow> file_system \<Rightarrow> bool \<Rightarrow> int option \<Rightarrow> args \<Rightarrow> outcome" where
  "script_entry euid fs script_exists poll a =
     (if euid \<noteq> 0 then SysExit 1 else main_startup fs script_exists poll a)"

text \<open>File systems and arguments used as concrete inputs below.\<close>

definition two_files :: file_system where
  "two_files = [''sql.trc'' \<mapsto> ''X'', ''waits.log'' \<mapsto> ''W'']"

definition empty_files :: file_system where
  "empty_files = [''sql.trc'' \<mapsto> [], ''waits.log'' \<mapsto> []]"

definition sql_only :: file_system where
  "sql_only = [''sql.trc'' \<mapsto> ''X'']"

definition sample_args :: args where
  "sample_args = \<lparr>pid_arg = 4242, trace_file = ''sql.trc'', output_arg = None, wait_only = False\<rparr>"


section \<open>Properties of the wait timer\<close>

subsection \<open>What one wait end does\<close>

lemma wait_end_Some:
  assumes "wait_starts s (ucast pid_tgid) = Some start_ts"
  shows "trace_wait_end pid_tgid ktime s =
    (0, (if ktime - start_ts < 1000 then s
         else s\<lparr>wait_events := wait_events s @
                [\<lparr>timestamp_ns = ktime, pid = ucast (drop_bit 32 pid_tgid),
                  tid = ucast pid_tgid,
                  cursor_id = lookup_cursor s (ucast (drop_bit 32 pid_tgid)),
                  wait_event_info = 0, duration_ns = ktime - start_ts,
                  wait_name = replicate 64 0\<rparr>]\<rparr>)
        \<lparr>wait_starts := (wait_starts s)(ucast pid_tgid := None)\<rparr>)"
  using assms
  by (simp add: trace_wait_end_def zero_event_def lookup_cursor_def Let_def
      split: option.split)

lemma emitted_None:
  "wait_starts s (ucast pid_tgid) = None \<Longrightarrow> emitted pid_tgid ktime s = []"
  by (simp add: emitted_def trace_wait_end_def)

lemma emitted_Some:
  assumes "wait_starts s (ucast pid_tgid) = Some start_ts"
  shows "emitted pid_tgid ktime s =
    (if ktime - start_ts < 1000 then []
     else [\<lparr>timestamp_ns = ktime, pid = ucast (drop_bit 32 pid_tgid),
            tid = ucast pid_tgid,
            cursor_id = lookup_cursor s (ucast (drop_bit 32 pid_tgid)),
            wait_event_info = 0, duration_ns = ktime - start_ts,
            wait_name = replicate 64 0\<rparr>])"
  by (simp add: emitted_def wait_end_Some [OF assms])

lemma wait_events_wait_end:
  "wait_events (snd (trace_wait_end pid_tgid ktime s)) = wait_events s @ emitted pid_tgid ktime s"
proof (cases "wait_starts s (ucast pid_tgid)")
  case None
  then show ?thesis by (simp add: emitted_None) (simp add: trace_wait_end_def)
next
  case (Some start_ts)
  then show ?thesis by (simp add: emitted_Some wait_end_Some)
qed

lemma wait_starts_wait_end:
  "wait_starts (snd (trace_wait_end pid_tgid ktime s)) = (wait_starts s)(ucast pid_tgid := None)"
proof (cases "wait_starts s (ucast pid_tgid)")
  case None
  then show ?thesis by (auto simp: trace_wait_end_def)
next
  case (Some start_ts)
  then show ?thesis by (simp add: wait_end_Some)
qed

lemma pid_to_cursor_wait_end:
  "pid_to_cursor (snd (trace_wait_end pid_tgid ktime s)) = pid_to_cursor s"
proof (cases "wait_starts s (ucast pid_tgid)")
  case None
  then show ?thesis by (simp add: trace_wait_end_def)
next
  case (Some start_ts)
  then show ?thesis by (simp add: wait_end_Some)
qed

lemma wait_start_eq:
  "trace_wait_start n pid_tgid ktime info s =
     (0, s\<lparr>wait_starts := table_update n (wait_starts s) (ucast pid_tgid) ktime\<rparr>)"
  by (simp add: trace_wait_start_def)

subsection \<open>Updates of a bounded table\<close>

lemma table_update_twice:
  "table_update n (table_update n m k v) k w = table_update n m k w"
  by (auto simp: table_update_def)

lemma table_update_room:
  "k \<in> dom m \<or> card (dom m) < n \<Longrightarrow> table_update n m k v = m(k \<mapsto> v)"
  by (simp add: table_update_def)

lemma table_update_lookup:
  "table_update n m k v k = Some v \<or> table_update n m k v k = None"
  by (auto simp: table_update_def)

lemma card_dom_table_update:
  fixes m :: "'k::finite \<rightharpoonup> 'v"
  assumes "card (dom m) \<le> n"
  shows "card (dom (table_update n m k v)) \<le> n"
proof (cases "k \<in> dom m")
  case True
  then have "dom (m(k \<mapsto> v)) = dom m" by auto
  with True assms show ?thesis by (simp add: table_update_def)
next
  case False
  then have "card (dom (m(k \<mapsto> v))) = Suc (card (dom m))" by simp
  with False assms show ?thesis by (simp add: table_update_def)
qed

lemma card_dom_delete:
  fixes m :: "'k::finite \<rightharpoonup> 'v"
  assumes "m k = Some v" "card (dom m) \<le> n"
  shows "card (dom (m(k := None))) < n"
proof -
  have "k \<in> dom m" using assms(1) by auto
  then have "card (dom m - {k}) < card (dom m)"
    by (intro card_Diff1_less) simp_all
  with assms(2) show ?thesis by simp
qed

lemma card_dom_delete_le:
  fixes m :: "'k::finite \<rightharpoonup> 'v"
  assumes "card (dom m) \<le> n"
  shows "card (dom (m(k := None))) \<le> n"
proof -
  have "card (dom m - {k}) \<le> card (dom m)"
    by (intro card_mono) auto
  with assms show ?thesis by simp
qed

lemma card_wait_starts_hit:
  assumes "card (dom (wait_starts s)) \<le> n"
  shows "card (dom (wait_starts (hit n h s))) \<le> n"
proof (cases h)
  case (WaitStart pt k info)
  then show ?thesis using assms by (simp add: wait_start_eq card_dom_table_update)
next
  case (WaitEnd pt k)
  then show ?thesis
    using card_dom_delete_le [OF assms, of "ucast pt"] by (simp add: wait_starts_wait_end)
next
  case (BufferReadStart pt k)
  then show ?thesis
    using assms by (simp add: trace_buffer_read_start_def card_dom_table_update)
next
  case (BufferReadDone pt k)
  then show ?thesis
    using card_dom_delete_le [OF assms, of "ucast pt"]
    by (simp add: trace_buffer_read_done_def wait_starts_wait_end)
qed

lemma card_wait_starts_run:
  "card (dom (wait_starts s)) \<le> n \<Longrightarrow> card (dom (wait_starts (run n hs s))) \<le> n"
  by (induction hs arbitrary: s) (simp_all add: card_wait_starts_hit)

lemma length_one_conv: "length xs = 1 \<Longrightarrow> \<exists>x. xs = [x]"
  by (cases xs) simp_all

subsection \<open>The cursor mapping is only read\<close>

lemma pid_to_cursor_hit: "pid_to_cursor (hit n h s) = pid_to_cursor s"
  by (cases h)
    (simp_all add: wait_start_eq pid_to_cursor_wait_end trace_buffer_read_start_def
      trace_buffer_read_done_def)

lemma pid_to_cursor_run: "pid_to_cursor (run n hs s) = pid_to_cursor s"
  by (induction hs arbitrary: s) (simp_all add: pid_to_cursor_hit)

lemma emitted_cursor:
  assumes "e \<in> set (emitted pid_tgid ktime s)"
  shows "cursor_id e = lookup_cursor s (pid e)"
proof (cases "wait_starts s (ucast pid_tgid)")
  case None
  with assms show ?thesis by (simp add: emitted_None)
next
  case (Some start_ts)
  with assms show ?thesis by (auto simp: emitted_Some split: if_splits)
qed

lemma wait_events_hit:
  "\<exists>es. wait_events (hit n h s) = wait_events s @ es \<and>
        (\<forall>e\<in>set es. cursor_id e = lookup_cursor s (pid e))"
proof (cases h)
  case (WaitStart pt k info)
  then show ?thesis by (simp add: wait_start_eq)
next
  case (WaitEnd pt k)
  then show ?thesis by (auto simp: wait_events_wait_end emitted_cursor)
next
  case (BufferReadStart pt k)
  then show ?thesis by (simp add: trace_buffer_read_start_def)
next
  case (BufferReadDone pt k)
  then show ?thesis
    by (auto simp: trace_buffer_read_done_def wait_events_wait_end emitted_cursor)
qed

lemma wait_events_run:
  "\<exists>es. wait_events (run n hs s) = wait_events s @ es \<and>
        (\<forall>e\<in>set es. cursor_id e = lookup_cursor s (pid e))"
proof (induction hs arbitrary: s)
  case Nil
  then show ?case by simp
next
  case (Cons h hs)
  obtain es1 where 1: "wait_events (hit n h s) = wait_events s @ es1"
    and c1: "\<forall>e\<in>set es1. cursor_id e = lookup_cursor s (pid e)"
    using wait_events_hit by blast
  obtain es2 where 2: "wait_events (run n hs (hit n h s)) = wait_events (hit n h s) @ es2"
    and c2: "\<forall>e\<in>set es2. cursor_id e = lookup_cursor (hit n h s) (pid e)"
    using Cons.IH by blast
  have "lookup_cursor (hit n h s) = lookup_cursor s"
    by (rule ext) (simp add: lookup_cursor_def pid_to_cursor_hit)
  with c1 c2 have "\<forall>e\<in>set (es1 @ es2). cursor_id e = lookup_cursor s (pid e)"
    by auto
  moreover have "wait_events (run n (h # hs) s) = wait_events s @ es1 @ es2"
    by (simp add: 1 2)
  ultimately show ?case by blast
qed

lemma emitted_duration_ge:
  assumes "e \<in> set (emitted pid_tgid ktime s)"
  shows "1000 \<le> duration_ns e"
proof (cases "wait_starts s (ucast pid_tgid)")
  case None
  with assms show ?thesis by (simp add: emitted_None)
next
  case (Some start_ts)
  with assms show ?thesis by (auto simp: emitted_Some split: if_splits)
qed

lemma emitted_cursor_pending:
  "emitted 429496729605 5000 cursor_pending =
     [\<lparr>timestamp_ns = 5000, pid = 100, tid = 5, cursor_id = 42, wait_event_info = 0,
       duration_ns = 5000, wait_name = replicate 64 0\<rparr>]"
proof -
  have h: "wait_starts cursor_pending (ucast (429496729605 :: u64)) = Some 0"
    by (simp add: cursor_pending_def init_state_def)
  show ?thesis
    by (simp add: emitted_Some [OF h] lookup_cursor_def) (simp add: cursor_pending_def init_state_def)
qed

subsection \<open>The claims about the timer\<close>

text \<open>
  C8. A wait end for a thread with no pending wait produces no event, returns 0 and
  leaves the pending-wait table (and the rest of the state) as it was.
\<close>

theorem wait_end_without_pending:
  "wait_starts s (ucast pid_tgid) = None \<Longrightarrow>
     trace_wait_end pid_tgid ktime s = (0, s)"
  by (simp add: trace_wait_end_def)

theorem wait_end_without_pending_witness:
  "wait_starts init_state (ucast (5 :: u64)) = None \<and>
   trace_wait_end 5 7000 init_state = (0, init_state)"
  using wait_end_without_pending [of init_state 5 7000]
  by (simp add: init_state_def)

text \<open>
  C4. A wait end whose duration is below 1000 ns submits nothing and still deletes the
  pending wait of the thread; a later start and end on the same thread then give an
  event, or none, by their own two times alone: the start time of the suppressed wait
  does not occur in the result. (The pending-wait table is within its size, as it is in
  every state the handlers reach.)
\<close>

theorem short_wait_suppressed:
  assumes "wait_starts s (ucast pid_tgid) = Some start_ts"
    and "ktime - start_ts < 1000"
    and "card (dom (wait_starts s)) \<le> n"
  shows "emitted pid_tgid ktime s = [] \<and>
    trace_wait_end pid_tgid ktime s =
      (0, s\<lparr>wait_starts := (wait_starts s)(ucast pid_tgid := None)\<rparr>) \<and>
    wait_starts (snd (trace_wait_end pid_tgid ktime s)) (ucast pid_tgid) = None \<and>
    wait_starts (snd (trace_wait_start n pid_tgid k2 info (snd (trace_wait_end pid_tgid ktime s))))
      (ucast pid_tgid) = Some k2 \<and>
    map duration_ns (emitted pid_tgid k3
        (snd (trace_wait_start n pid_tgid k2 info (snd (trace_wait_end pid_tgid ktime s))))) =
      (if k3 - k2 < 1000 then [] else [k3 - k2])"
proof -
  let ?s1 = "s\<lparr>wait_starts := (wait_starts s)(ucast pid_tgid := None)\<rparr>"
  have e: "trace_wait_end pid_tgid ktime s = (0, ?s1)"
    using assms by (simp add: wait_end_Some)
  have "card (dom ((wait_starts s)(ucast pid_tgid := None))) < n"
    using assms(1,3) by (rule card_dom_delete)
  then have "table_update n ((wait_starts s)(ucast pid_tgid := None)) (ucast pid_tgid) k2 =
      (wait_starts s)(ucast pid_tgid \<mapsto> k2)"
    by (simp add: table_update_room)
  then have p: "wait_starts (snd (trace_wait_start n pid_tgid k2 info ?s1)) (ucast pid_tgid) = Some k2"
    by (simp add: wait_start_eq)
  have "emitted pid_tgid ktime s = []"
    using assms by (simp add: emitted_Some)
  moreover have "map duration_ns (emitted pid_tgid k3
        (snd (trace_wait_start n pid_tgid k2 info ?s1))) = (if k3 - k2 < 1000 then [] else [k3 - k2])"
    by (simp add: emitted_Some [OF p])
  ultimately show ?thesis
    using p by (simp add: e)
qed

theorem short_wait_suppressed_witness:
  "wait_starts one_pending (ucast (5 :: u64)) = Some 1000 \<and> (1999 :: u64) - 1000 < 1000 \<and>
   card (dom (wait_starts one_pending)) \<le> default_entries \<and>
   emitted 5 1999 one_pending = [] \<and>
   wait_starts (snd (trace_wait_end 5 1999 one_pending)) (ucast (5 :: u64)) = None \<and>
   map duration_ns (emitted 5 9000
        (snd (trace_wait_start default_entries 5 4000 3
           (snd (trace_wait_end 5 1999 one_pending))))) = [5000]"
proof -
  have h1: "wait_starts one_pending (ucast (5 :: u64)) = Some 1000"
    by (simp add: one_pending_def init_state_def)
  have h2: "(1999 :: u64) - 1000 < 1000" by simp
  have h3: "card (dom (wait_starts one_pending)) \<le> default_entries"
    by (simp add: one_pending_def init_state_def default_entries_def)
  from short_wait_suppressed [OF h1 h2 h3, of 4000 3 9000]
  have "emitted 5 1999 one_pending = [] \<and>
    wait_starts (snd (trace_wait_end 5 1999 one_pending)) (ucast (5 :: u64)) = None \<and>
    map duration_ns (emitted 5 9000
        (snd (trace_wait_start default_entries 5 4000 3
           (snd (trace_wait_end 5 1999 one_pending))))) =
      (if (9000 :: u64) - 4000 < 1000 then [] else [9000 - 4000])"
    by blast
  with h1 h2 h3 show ?thesis by simp
qed

text \<open>
  C5. An event submitted by a wait end carries the cursor id the mapping holds for its
  pid, and 0 when the mapping has no entry; over a whole session of probe hits every
  new event is so, in particular all have cursor id 0 when the mapping is empty; no
  handler changes the mapping.
\<close>

theorem cursor_id_from_mapping:
  "(\<forall>e\<in>set (emitted pid_tgid ktime s).
      cursor_id e = (case pid_to_cursor s (pid e) of Some c \<Rightarrow> c | None \<Rightarrow> 0)) \<and>
   (\<forall>e\<in>set (drop (length (wait_events s)) (wait_events (run n hs s))).
      cursor_id e = (case pid_to_cursor s (pid e) of Some c \<Rightarrow> c | None \<Rightarrow> 0)) \<and>
   (pid_to_cursor s = Map.empty \<longrightarrow>
      (\<forall>e\<in>set (drop (length (wait_events s)) (wait_events (run n hs s))). cursor_id e = 0)) \<and>
   pid_to_cursor (snd (trace_wait_start n pid_tgid ktime info s)) = pid_to_cursor s \<and>
   pid_to_cursor (snd (trace_wait_end pid_tgid ktime s)) = pid_to_cursor s \<and>
   pid_to_cursor (run n hs s) = pid_to_cursor s"
proof -
  obtain es where 1: "wait_events (run n hs s) = wait_events s @ es"
    and c: "\<forall>e\<in>set es. cursor_id e = lookup_cursor s (pid e)"
    using wait_events_run by blast
  have d: "drop (length (wait_events s)) (wait_events (run n hs s)) = es"
    by (simp add: 1)
  have a: "\<forall>e\<in>set (emitted pid_tgid ktime s).
      cursor_id e = (case pid_to_cursor s (pid e) of Some c \<Rightarrow> c | None \<Rightarrow> 0)"
    using emitted_cursor by (simp add: lookup_cursor_def)
  have b: "\<forall>e\<in>set (drop (length (wait_events s)) (wait_events (run n hs s))).
      cursor_id e = (case pid_to_cursor s (pid e) of Some c \<Rightarrow> c | None \<Rightarrow> 0)"
    using c by (simp add: d lookup_cursor_def)
  have b0: "pid_to_cursor s = Map.empty \<longrightarrow>
      (\<forall>e\<in>set (drop (length (wait_events s)) (wait_events (run n hs s))). cursor_id e = 0)"
    using b by simp
  show ?thesis
    using a b b0
    by (simp add: wait_start_eq pid_to_cursor_wait_end pid_to_cursor_run)
qed

theorem cursor_id_from_mapping_witness:
  "map cursor_id (emitted 429496729605 5000 cursor_pending) = [42] \<and>
   pid_to_cursor init_state = Map.empty \<and>
   map cursor_id (drop (length (wait_events init_state))
     (wait_events (run default_entries [WaitStart 5 0 3, WaitEnd 5 5000] init_state))) = [0]"
proof -
  let ?r = "drop (length (wait_events init_state))
     (wait_events (run default_entries [WaitStart 5 0 3, WaitEnd 5 5000] init_state))"
  have m: "pid_to_cursor init_state = Map.empty"
    by (simp add: init_state_def)
  have "table_update default_entries (wait_starts init_state) (ucast (5 :: u64)) 0 =
      (wait_starts init_state)(ucast (5 :: u64) \<mapsto> 0)"
    by (intro table_update_room) (simp add: init_state_def default_entries_def)
  then have "wait_starts (snd (trace_wait_start default_entries 5 0 3 init_state))
      (ucast (5 :: u64)) = Some 0"
    by (simp add: wait_start_eq)
  then have "length ?r = 1"
    by (simp add: wait_events_wait_end emitted_Some wait_start_eq)
  then obtain ev where r: "?r = [ev]"
    using length_one_conv by blast
  from cursor_id_from_mapping [of 429496729605 5000 cursor_pending 0 "[]" 0]
  have "\<forall>e\<in>set (emitted 429496729605 5000 cursor_pending).
      cursor_id e = (case pid_to_cursor cursor_pending (pid e) of Some c \<Rightarrow> c | None \<Rightarrow> 0)"
    by blast
  then have a: "map cursor_id (emitted 429496729605 5000 cursor_pending) = [42]"
    unfolding emitted_cursor_pending by (simp add: cursor_pending_def)
  from cursor_id_from_mapping [of 0 0 init_state default_entries "[WaitStart 5 0 3, WaitEnd 5 5000]" 0] m
  have "\<forall>e\<in>set ?r. cursor_id e = 0"
    by blast
  then have b: "map cursor_id ?r = [0]"
    unfolding r by simp
  from a m b show ?thesis by blast
qed

text \<open>
  C7. The pending-wait table is a map, so a thread id has at most one start time in it.
  A second wait start on the same thread overwrites the first: the state is the one the
  second start alone gives, an event of the following wait end has its duration counted
  from the second start, and when the first start found the thread in the table or room
  for it, the stored time is the second and the wait end submits that event unless the
  duration is below 1000 ns.
\<close>

theorem second_start_overwrites:
  "trace_wait_start n pid_tgid k2 i2 (snd (trace_wait_start n pid_tgid k1 i1 s)) =
     trace_wait_start n pid_tgid k2 i2 s \<and>
   card {ts. wait_starts
       (snd (trace_wait_start n pid_tgid k2 i2 (snd (trace_wait_start n pid_tgid k1 i1 s))))
       (ucast pid_tgid) = Some ts} \<le> 1 \<and>
   set (map duration_ns (emitted pid_tgid k3
       (snd (trace_wait_start n pid_tgid k2 i2 (snd (trace_wait_start n pid_tgid k1 i1 s))))))
     \<subseteq> {k3 - k2} \<and>
   (ucast pid_tgid \<in> dom (wait_starts s) \<or> card (dom (wait_starts s)) < n \<longrightarrow>
      wait_starts (snd (trace_wait_start n pid_tgid k1 i1 s)) (ucast pid_tgid) = Some k1 \<and>
      wait_starts
        (snd (trace_wait_start n pid_tgid k2 i2 (snd (trace_wait_start n pid_tgid k1 i1 s))))
        (ucast pid_tgid) = Some k2 \<and>
      map duration_ns (emitted pid_tgid k3
        (snd (trace_wait_start n pid_tgid k2 i2 (snd (trace_wait_start n pid_tgid k1 i1 s))))) =
        (if k3 - k2 < 1000 then [] else [k3 - k2]))"
proof -
  let ?s2 = "snd (trace_wait_start n pid_tgid k2 i2 (snd (trace_wait_start n pid_tgid k1 i1 s)))"
  have same: "trace_wait_start n pid_tgid k2 i2 (snd (trace_wait_start n pid_tgid k1 i1 s)) =
     trace_wait_start n pid_tgid k2 i2 s"
    by (simp add: wait_start_eq table_update_twice)
  have one: "card {ts. wait_starts ?s2 (ucast pid_tgid) = Some ts} \<le> 1"
  proof (cases "wait_starts ?s2 (ucast pid_tgid)")
    case None
    then show ?thesis by simp
  next
    case (Some v)
    then have "{ts. wait_starts ?s2 (ucast pid_tgid) = Some ts} = {v}" by auto
    then show ?thesis by simp
  qed
  have w: "wait_starts ?s2 (ucast pid_tgid) = Some k2 \<or> wait_starts ?s2 (ucast pid_tgid) = None"
    using table_update_lookup [of n "wait_starts s" "ucast pid_tgid" k2]
    by (simp add: wait_start_eq table_update_twice)
  have dur: "set (map duration_ns (emitted pid_tgid k3 ?s2)) \<subseteq> {k3 - k2}"
  proof (cases "wait_starts ?s2 (ucast pid_tgid)")
    case None
    then show ?thesis by (simp add: emitted_None)
  next
    case (Some v)
    with w have p: "wait_starts ?s2 (ucast pid_tgid) = Some k2" by simp
    show ?thesis by (simp add: emitted_Some [OF p])
  qed
  have room: "wait_starts (snd (trace_wait_start n pid_tgid k1 i1 s)) (ucast pid_tgid) = Some k1 \<and>
      wait_starts ?s2 (ucast pid_tgid) = Some k2 \<and>
      map duration_ns (emitted pid_tgid k3 ?s2) = (if k3 - k2 < 1000 then [] else [k3 - k2])"
    if r: "ucast pid_tgid \<in> dom (wait_starts s) \<or> card (dom (wait_starts s)) < n"
  proof -
    have 1: "wait_starts (snd (trace_wait_start n pid_tgid k1 i1 s)) (ucast pid_tgid) = Some k1"
      using r by (simp add: wait_start_eq table_update_room)
    have p: "wait_starts ?s2 (ucast pid_tgid) = Some k2"
      using r by (simp add: wait_start_eq table_update_twice table_update_room)
    have "map duration_ns (emitted pid_tgid k3 ?s2) = (if k3 - k2 < 1000 then [] else [k3 - k2])"
      by (simp add: emitted_Some [OF p])
    with 1 p show ?thesis by blast
  qed
  from same one dur room show ?thesis by blast
qed

theorem second_start_overwrites_witness:
  "card (dom (wait_starts init_state)) < default_entries \<and>
   wait_starts (snd (trace_wait_start default_entries 5 1000 3 init_state)) (ucast (5 :: u64)) =
     Some 1000 \<and>
   wait_starts (snd (trace_wait_start default_entries 5 4000 3
       (snd (trace_wait_start default_entries 5 1000 3 init_state)))) (ucast (5 :: u64)) =
     Some 4000 \<and>
   map duration_ns (emitted 5 9000
     (snd (trace_wait_start default_entries 5 4000 3
       (snd (trace_wait_start default_entries 5 1000 3 init_state))))) = [5000]"
proof -
  have r: "card (dom (wait_starts init_state)) < default_entries"
    by (simp add: init_state_def default_entries_def)
  from second_start_overwrites [of default_entries 5 4000 3 1000 3 init_state 9000] r
  have "wait_starts (snd (trace_wait_start default_entries 5 1000 3 init_state))
       (ucast (5 :: u64)) = Some 1000 \<and>
     wait_starts (snd (trace_wait_start default_entries 5 4000 3
       (snd (trace_wait_start default_entries 5 1000 3 init_state)))) (ucast (5 :: u64)) =
     Some 4000 \<and>
     map duration_ns (emitted 5 9000
       (snd (trace_wait_start default_entries 5 4000 3
         (snd (trace_wait_start default_entries 5 1000 3 init_state))))) =
     (if (9000 :: u64) - 4000 < 1000 then [] else [9000 - 4000])"
    by blast
  with r show ?thesis by simp
qed

text \<open>
  C9. The claim that every submitted event has a duration above 1000 ns fails at the
  boundary: a wait of exactly 1000 ns is submitted (the test is \<^verbatim>\<open>duration_ns < 1000\<close>,
  under the comment "Only report waits > 1 microsecond").
\<close>

theorem boundary_wait_emitted:
  "map duration_ns
     (emitted 5 2000 (snd (trace_wait_start default_entries 5 1000 0 init_state))) = [1000]"
proof -
  have "table_update default_entries (wait_starts init_state) (ucast (5 :: u64)) 1000 =
      (wait_starts init_state)(ucast (5 :: u64) \<mapsto> 1000)"
    by (intro table_update_room) (simp add: init_state_def default_entries_def)
  then have h: "wait_starts (snd (trace_wait_start default_entries 5 1000 0 init_state))
      (ucast (5 :: u64)) = Some 1000"
    by (simp add: wait_start_eq)
  show ?thesis by (simp add: emitted_Some [OF h])
qed

section \<open>Properties of the formatter\<close>

subsection \<open>Hexadecimal digits\<close>

lemma digits_small: "n < b \<Longrightarrow> digits b n = [digit_char n]"
  by (subst digits.simps) simp

lemma digits_big:
  "2 \<le> b \<Longrightarrow> b \<le> n \<Longrightarrow> digits b n = digits b (n div b) @ [digit_char (n mod b)]"
  by (subst digits.simps) simp

lemma zero_pad_step:
  assumes "0 < k"
  shows "zero_pad (Suc k) (digits 16 n) = zero_pad k (digits 16 (n div 16)) @ [digit_char (n mod 16)]"
proof (cases "n < 16")
  case True
  have z: "digit_char 0 = CHR ''0''" by (simp add: digit_char_def)
  have "replicate k (CHR ''0'') = replicate (k - 1) (CHR ''0'') @ [CHR ''0'']"
    using assms by (cases k) (simp_all add: replicate_append_same)
  then show ?thesis
    using True by (simp add: zero_pad_def digits_small [of n 16] digits_small [of 0 16] z)
next
  case False
  then have "digits 16 n = digits 16 (n div 16) @ [digit_char (n mod 16)]"
    by (intro digits_big) simp_all
  then show ?thesis by (simp add: zero_pad_def)
qed

lemma zero_pad_digits16:
  "n < 16 ^ Suc k \<Longrightarrow>
     zero_pad (Suc k) (digits 16 n) = map (\<lambda>i. digit_char (n div 16 ^ i mod 16)) (rev [0..<Suc k])"
proof (induction k arbitrary: n)
  case 0
  then show ?case by (simp add: zero_pad_def digits_small)
next
  case (Suc k)
  have "n div 16 < 16 ^ Suc k"
    using Suc.prems by (simp add: less_mult_imp_div_less)
  then have ih: "zero_pad (Suc k) (digits 16 (n div 16)) =
      map (\<lambda>i. digit_char (n div 16 div 16 ^ i mod 16)) (rev [0..<Suc k])"
    by (rule Suc.IH)
  have sh: "map (\<lambda>i. digit_char (n div 16 ^ i mod 16)) (rev [0..<Suc (Suc k)]) =
      map (\<lambda>i. digit_char (n div 16 div 16 ^ i mod 16)) (rev [0..<Suc k]) @ [digit_char (n mod 16)]"
  proof -
    have "[0..<Suc (Suc k)] = 0 # map Suc [0..<Suc k]"
      by (simp only: upt_conv_Cons [of 0 "Suc (Suc k)"] map_Suc_upt)
    then show ?thesis
      by (simp add: rev_map comp_def div_mult2_eq del: upt_Suc)
  qed
  have st: "zero_pad (Suc (Suc k)) (digits 16 n) =
      zero_pad (Suc k) (digits 16 (n div 16)) @ [digit_char (n mod 16)]"
    by (rule zero_pad_step) simp
  show ?case
    by (simp only: st ih sh)
qed

lemma format_08x_u32:
  "format_08x (uint (w :: u32)) =
     map (\<lambda>i. digit_char (unat w div 16 ^ i mod 16)) [7, 6, 5, 4, 3, 2, 1, 0]"
proof -
  have "unat w < 16 ^ Suc 7"
    using unsigned_less [of w, where 'a = nat] by simp
  then have "zero_pad (Suc 7) (digits 16 (unat w)) =
      map (\<lambda>i. digit_char (unat w div 16 ^ i mod 16)) (rev [0..<Suc 7])"
    by (rule zero_pad_digits16)
  moreover have "rev [0..<Suc 7] = [7, 6, 5, 4, 3, 2, 1, 0 :: nat]"
    by (simp add: upt_rec)
  ultimately show ?thesis
    by (simp add: format_08x_def)
qed

subsection \<open>Rounding twice\<close>

lemma rne_div_bounds:
  assumes "0 < b"
  shows "2 * (b * rne_div a b) \<le> 2 * a + b \<and> 2 * a \<le> 2 * (b * rne_div a b) + b"
proof -
  have a: "a = b * (a div b) + a mod b" by simp
  have m: "a mod b < b" using assms by simp
  define q where "q = a div b"
  define r where "r = a mod b"
  have a': "a = b * q + r" and m': "r < b" using a m by (simp_all add: q_def r_def)
  have "rne_div a b = (if 2 * r < b then q else if b < 2 * r then q + 1
      else if even q then q else q + 1)"
    by (simp add: rne_div_def q_def r_def Let_def)
  then show ?thesis
    using a' m' by (auto simp: algebra_simps)
qed

lemma rne_div_tie:
  assumes "0 < b" "even b"
  shows "rne_div (k * b + b div 2) b = (if even k then k else k + 1)"
proof -
  have h: "2 * (b div 2) = b" using assms by simp
  have lt: "b div 2 < b" using assms by simp
  have d: "(k * b + b div 2) div b = k" using assms lt by simp
  have m: "(k * b + b div 2) mod b = b div 2" using assms lt by simp
  show ?thesis
    unfolding rne_div_def d m Let_def using h by simp
qed

lemma rne_div_low:
  assumes "2 * t < b"
  shows "rne_div (k * b + t) b = k"
proof -
  have lt: "t < b" and b: "0 < b" using assms by simp_all
  have d: "(k * b + t) div b = k" using lt by simp
  have m: "(k * b + t) mod b = t" using lt by simp
  show ?thesis
    unfolding rne_div_def d m Let_def using assms by simp
qed

lemma rne_div_high:
  assumes "b < 2 * t" "t \<le> b" "0 < b"
  shows "rne_div (k * b + t) b = k + 1"
proof (cases "t = b")
  case True
  have d: "(k * b + b) div b = k + 1" using assms(3) by simp
  have m: "(k * b + b) mod b = 0" by simp
  show ?thesis
    unfolding True rne_div_def d m Let_def using assms(3) by simp
next
  case False
  then have lt: "t < b" using assms by simp
  have d: "(k * b + t) div b = k" using lt by simp
  have m: "(k * b + t) mod b = t" using lt by simp
  show ?thesis
    unfolding rne_div_def d m Let_def using assms by simp
qed

lemma rne_div_shift:
  assumes "0 < b" "even c"
  shows "rne_div (c * b + a) b = c + rne_div a b"
proof -
  have d: "(c * b + a) div b = c + a div b" using assms by simp
  have m: "(c * b + a) mod b = a mod b" by simp
  show ?thesis
    unfolding rne_div_def d m Let_def using assms by simp
qed

lemma rne_div_twice:
  assumes P: "500 < P" "even P"
  shows "rne_div (rne_div (n * P) 1000) P = rne_div n 1000"
proof -
  define k where "k = n div 1000"
  define r where "r = n mod 1000"
  have n: "n = k * 1000 + r" and r: "r < 1000" by (simp_all add: k_def r_def)
  define t where "t = rne_div (r * P) 1000"
  have "n * P = (k * P) * 1000 + r * P" by (simp add: n algebra_simps)
  then have "rne_div (n * P) 1000 = rne_div ((k * P) * 1000 + r * P) 1000" by simp
  also have "\<dots> = k * P + t"
    unfolding t_def using P by (intro rne_div_shift) simp_all
  finally have inner: "rne_div (n * P) 1000 = k * P + t" .
  have outer: "rne_div (rne_div (n * P) 1000) P = rne_div (k * P + t) P"
    by (simp only: inner)
  have direct: "rne_div n 1000 = rne_div (k * 1000 + r) 1000"
    using n by simp
  have bt: "2 * (1000 * t) \<le> 2 * (r * P) + 1000 \<and> 2 * (r * P) \<le> 2 * (1000 * t) + 1000"
    unfolding t_def by (rule rne_div_bounds) simp
  consider "r < 500" | "r = 500" | "500 < r" by linarith
  then show ?thesis
  proof cases
    case 1
    then have "r * P \<le> 499 * P" by (intro mult_le_mono1) simp
    with bt P have "2 * t < P" by linarith
    then have "rne_div (k * P + t) P = k" by (rule rne_div_low)
    moreover have "rne_div (k * 1000 + r) 1000 = k" using 1 by (intro rne_div_low) simp
    ultimately show ?thesis by (simp only: outer direct)
  next
    case 2
    have "500 * P = (P div 2) * 1000 + 0" using P by auto
    then have "rne_div (500 * P) 1000 = rne_div ((P div 2) * 1000 + 0) 1000" by (rule arg_cong)
    then have "t = rne_div ((P div 2) * 1000 + 0) 1000" by (simp only: t_def 2)
    also have "\<dots> = P div 2" by (intro rne_div_low) simp
    finally have t: "t = P div 2" .
    have "rne_div (k * P + P div 2) P = (if even k then k else k + 1)"
      using P by (intro rne_div_tie) simp_all
    moreover have "rne_div (k * 1000 + 1000 div 2) 1000 = (if even k then k else k + 1)"
      by (intro rne_div_tie) simp_all
    ultimately show ?thesis by (simp only: outer direct t 2) simp
  next
    case 3
    then have "501 * P \<le> r * P" by (intro mult_le_mono1) simp
    moreover have "r * P \<le> 999 * P" using r by (intro mult_le_mono1) simp
    ultimately have "P < 2 * t" "t \<le> P" using bt P by linarith+
    then have "rne_div (k * P + t) P = k + 1" using P by (intro rne_div_high) simp_all
    moreover have "rne_div (k * 1000 + r) 1000 = k + 1" using 3 r by (intro rne_div_high) simp_all
    ultimately show ?thesis by (simp only: outer direct)
  qed
qed

lemma bit_length_le: "n < 2 ^ k \<Longrightarrow> bit_length n \<le> k"
proof (induction k arbitrary: n)
  case 0
  then show ?case by (simp add: bit_length.simps)
next
  case (Suc k)
  show ?case
  proof (cases "n = 0")
    case True
    then show ?thesis by (simp add: bit_length.simps)
  next
    case False
    have "n div 2 < 2 ^ k" using Suc.prems by simp
    then have "bit_length (n div 2) \<le> k" by (rule Suc.IH)
    then show ?thesis using False by (subst bit_length.simps) simp
  qed
qed

lemma bit_length_1000: "bit_length 1000 = 10"
  by code_simp

lemma format_0f_true_div:
  assumes "n < 2 ^ 53"
  shows "format_0f (true_div n 1000) = digits 10 (rne_div n 1000)"
proof (cases "n = 0")
  case True
  then show ?thesis by (simp add: true_div_def format_0f_def rne_div_def)
next
  case False
  define s where "s = int (bit_length n) - int (bit_length 1000)"
  define l where "l = (if 1000 * 2 ^ nat s \<le> n * 2 ^ nat (- s) then s else s - 1)"
  define E where "E = nat (52 - l)"
  have "bit_length n \<le> 53" using assms by (rule bit_length_le)
  then have "s \<le> 43" by (simp add: s_def bit_length_1000)
  then have "l \<le> 43" by (simp add: l_def)
  then have e: "nat (l - 52) = 0" "nat (- (l - 52)) = E" "nat (52 - l) = E" and E: "9 \<le> E"
    by (simp_all add: E_def)
  have td: "true_div n 1000 = (rne_div (n * 2 ^ E) 1000, l - 52)"
    using False e by (simp add: true_div_def Let_def s_def [symmetric] l_def [symmetric])
  have "(2::nat) ^ 9 \<le> 2 ^ E" using E by (intro power_increasing) simp_all
  then have P: "500 < (2::nat) ^ E" by simp
  have ev: "even ((2::nat) ^ E)" using E by simp
  show ?thesis
    by (simp add: td format_0f_def e rne_div_twice [OF P ev])
qed

subsection \<open>The claims about the formatter\<close>

lemma print_wait_event_eq:
  "print_wait_event e now out =
     out @ (if 0 < cursor_id e then ''WAIT #'' @ digits 10 (unat (cursor_id e))
            else ''WAIT [PID '' @ digits 10 (unat (pid e)) @ '']'')
       @ '': nam='' @ [CHR 0x27] @ get_wait_event_name (uint (wait_event_info e)) @ [CHR 0x27]
       @ '' ela='' @ format_0f (true_div (unat (duration_ns e)) 1000)
       @ '' us tim='' @ take (length now - 3) now @ [CHR 0x0A]"
  by (simp add: print_wait_event_def str_int_def Let_def)

lemma get_wait_event_name_0: "get_wait_event_name 0 = ''Unknown:0x00000000''"
  by code_simp

lemma emitted_info:
  assumes "e \<in> set (emitted pid_tgid ktime s)"
  shows "wait_event_info e = 0"
proof (cases "wait_starts s (ucast pid_tgid)")
  case None
  with assms show ?thesis by (simp add: emitted_None)
next
  case (Some start_ts)
  with assms show ?thesis by (auto simp: emitted_Some split: if_splits)
qed

text \<open>
  C3. \<^verbatim>\<open>trace_wait_start\<close> does not use its argument \<^verbatim>\<open>wait_event_info\<close>, and every event
  a following wait end submits has \<^verbatim>\<open>wait_event_info\<close> = 0 (the event is zeroed and the
  field never assigned), so its line shows the name \<^verbatim>\<open>Unknown:0x00000000\<close>.
\<close>

theorem wait_event_info_zero:
  "trace_wait_start n pid_tgid k1 info s = trace_wait_start n pid_tgid k1 0 s \<and>
   (\<forall>e\<in>set (emitted pid_tgid k2 (snd (trace_wait_start n pid_tgid k1 info s))).
      wait_event_info e = 0 \<and>
      get_wait_event_name (uint (wait_event_info e)) = ''Unknown:0x00000000'' \<and>
      print_wait_event e now out =
        out @ (if 0 < cursor_id e then ''WAIT #'' @ digits 10 (unat (cursor_id e))
               else ''WAIT [PID '' @ digits 10 (unat (pid e)) @ '']'')
          @ '': nam='' @ [CHR 0x27] @ ''Unknown:0x00000000'' @ [CHR 0x27]
          @ '' ela='' @ format_0f (true_div (unat (duration_ns e)) 1000)
          @ '' us tim='' @ take (length now - 3) now @ [CHR 0x0A]) \<and>
   (\<forall>e\<in>set (emitted pid_tgid k2 s). wait_event_info e = 0)"
proof -
  have "trace_wait_start n pid_tgid k1 info s = trace_wait_start n pid_tgid k1 0 s"
    by (simp add: wait_start_eq)
  moreover have "\<forall>e\<in>set (emitted pid_tgid k2 s). wait_event_info e = 0" for s
    using emitted_info by blast
  ultimately show ?thesis
    by (simp add: print_wait_event_eq get_wait_event_name_0)
qed

theorem wait_event_info_zero_witness:
  "map wait_event_info (emitted 5 5000 (snd (trace_wait_start default_entries 5 0 0x05000001 init_state))) = [0] \<and>
   map (\<lambda>e. get_wait_event_name (uint (wait_event_info e)))
     (emitted 5 5000 (snd (trace_wait_start default_entries 5 0 0x05000001 init_state))) =
     [''Unknown:0x00000000'']"
proof -
  let ?es = "emitted 5 5000 (snd (trace_wait_start default_entries 5 0 0x05000001 init_state))"
  have "table_update default_entries (wait_starts init_state) (ucast (5 :: u64)) 0 =
      (wait_starts init_state)(ucast (5 :: u64) \<mapsto> 0)"
    by (intro table_update_room) (simp add: init_state_def default_entries_def)
  then have p: "wait_starts (snd (trace_wait_start default_entries 5 0 0x05000001 init_state))
      (ucast (5 :: u64)) = Some 0"
    by (simp add: wait_start_eq)
  have "length ?es = 1"
    by (simp add: emitted_Some [OF p])
  then obtain ev where es: "?es = [ev]"
    using length_one_conv by blast
  from wait_event_info_zero [of default_entries 5 0 "0x05000001" init_state 5000 "[]" "[]"]
  have "\<forall>e\<in>set ?es. wait_event_info e = 0 \<and>
      get_wait_event_name (uint (wait_event_info e)) = ''Unknown:0x00000000''"
    by blast
  then show ?thesis
    unfolding es by auto
qed

text \<open>
  C6. The line of an event is \<^verbatim>\<open>WAIT #<cursor_id>\<close> when the cursor id is positive and
  \<^verbatim>\<open>WAIT [PID <pid>]\<close> otherwise, then \<^verbatim>\<open>: nam='<name>' ela=<duration_us> us tim=<timestamp>\<close>;
  the name is the table's, and for a code not in the table \<^verbatim>\<open>Unknown:0x\<close> with the eight
  hexadecimal digits of the code; the duration is \<^verbatim>\<open>duration_ns / 1000\<close> printed with no
  decimals, which below \<open>2 ^ 53\<close> ns is the quotient rounded to the nearest integer,
  ties to even.
\<close>

theorem wait_line_format:
  "print_wait_event e now out =
     out @ (if 0 < cursor_id e then ''WAIT #'' @ digits 10 (unat (cursor_id e))
            else ''WAIT [PID '' @ digits 10 (unat (pid e)) @ '']'')
       @ '': nam='' @ [CHR 0x27]
       @ (case map_of WAIT_EVENT_NAMES (uint (wait_event_info e)) of
            Some name \<Rightarrow> name
          | None \<Rightarrow> ''Unknown:0x'' @
              map (\<lambda>i. digit_char (unat (wait_event_info e) div 16 ^ i mod 16))
                [7, 6, 5, 4, 3, 2, 1, 0])
       @ [CHR 0x27] @ '' ela='' @ format_0f (true_div (unat (duration_ns e)) 1000)
       @ '' us tim='' @ take (length now - 3) now @ [CHR 0x0A] \<and>
   (unat (duration_ns e) < 2 ^ 53 \<longrightarrow>
      format_0f (true_div (unat (duration_ns e)) 1000) =
        digits 10 (rne_div (unat (duration_ns e)) 1000))"
proof -
  have "get_wait_event_name (uint (wait_event_info e)) =
      (case map_of WAIT_EVENT_NAMES (uint (wait_event_info e)) of
            Some name \<Rightarrow> name
          | None \<Rightarrow> ''Unknown:0x'' @
              map (\<lambda>i. digit_char (unat (wait_event_info e) div 16 ^ i mod 16))
                [7, 6, 5, 4, 3, 2, 1, 0])"
    by (simp only: get_wait_event_name_def format_08x_u32)
  then have line: "print_wait_event e now out =
     out @ (if 0 < cursor_id e then ''WAIT #'' @ digits 10 (unat (cursor_id e))
            else ''WAIT [PID '' @ digits 10 (unat (pid e)) @ '']'')
       @ '': nam='' @ [CHR 0x27]
       @ (case map_of WAIT_EVENT_NAMES (uint (wait_event_info e)) of
            Some name \<Rightarrow> name
          | None \<Rightarrow> ''Unknown:0x'' @
              map (\<lambda>i. digit_char (unat (wait_event_info e) div 16 ^ i mod 16))
                [7, 6, 5, 4, 3, 2, 1, 0])
       @ [CHR 0x27] @ '' ela='' @ format_0f (true_div (unat (duration_ns e)) 1000)
       @ '' us tim='' @ take (length now - 3) now @ [CHR 0x0A]"
    by (simp only: print_wait_event_eq)
  have ela: "unat (duration_ns e) < 2 ^ 53 \<longrightarrow>
      format_0f (true_div (unat (duration_ns e)) 1000) =
        digits 10 (rne_div (unat (duration_ns e)) 1000)"
    using format_0f_true_div by blast
  from line ela show ?thesis by (rule conjI)
qed

theorem wait_line_format_witness:
  "print_wait_event sample_event ''2026-01-01 00:00:00.123456'' [] =
     ''WAIT #42: nam='' @ [CHR 0x27] @ ''Unknown:0x00000000'' @ [CHR 0x27] @
     '' ela=5 us tim=2026-01-01 00:00:00.123'' @ [CHR 0x0A] \<and>
   print_wait_event sample_read_event ''2026-01-01 00:00:00.123456'' [] =
     ''WAIT [PID 100]: nam='' @ [CHR 0x27] @ ''DataFileRead'' @ [CHR 0x27] @
     '' ela=2 us tim=2026-01-01 00:00:00.123'' @ [CHR 0x0A]"
proof -
  have d1: "unat (duration_ns sample_event) < 2 ^ 53"
    by (simp add: sample_event_def)
  have d2: "unat (duration_ns sample_read_event) < 2 ^ 53"
    by (simp add: sample_read_event_def)
  have t: "digits 10 42 = ''42''" "digits 10 100 = ''100''" "digits 10 5 = ''5''"
    "digits 10 2 = ''2''"
    by (simp_all add: digits.simps digit_char_def)
  have r: "rne_div 5000 1000 = 5" "rne_div 2500 1000 = 2"
    by (simp_all add: rne_div_def)
  from wait_line_format [of sample_event "''2026-01-01 00:00:00.123456''" "[]"] d1
  have 1: "print_wait_event sample_event ''2026-01-01 00:00:00.123456'' [] =
     ''WAIT #42: nam='' @ [CHR 0x27] @ ''Unknown:0x00000000'' @ [CHR 0x27] @
     '' ela=5 us tim=2026-01-01 00:00:00.123'' @ [CHR 0x0A]"
    by (simp add: sample_event_def WAIT_EVENT_NAMES_def t r digit_char_def)
  from wait_line_format [of sample_read_event "''2026-01-01 00:00:00.123456''" "[]"] d2
  have 2: "print_wait_event sample_read_event ''2026-01-01 00:00:00.123456'' [] =
     ''WAIT [PID 100]: nam='' @ [CHR 0x27] @ ''DataFileRead'' @ [CHR 0x27] @
     '' ela=2 us tim=2026-01-01 00:00:00.123'' @ [CHR 0x0A]"
    by (simp add: sample_read_event_def WAIT_EVENT_NAMES_def t r digit_char_def)
  from 1 2 show ?thesis by blast
qed

section \<open>Properties of the orchestrator\<close>

lemma universal_newlines_id: "CR \<notin> set s \<Longrightarrow> universal_newlines s = s"
  by (induction s rule: universal_newlines.induct) auto

lemma merge_both:
  assumes "fs extension_file = Some a" "fs wait_file = Some b"
    and "output_file \<noteq> extension_file" "output_file \<noteq> wait_file"
  shows "merge_traces extension_file wait_file output_file fs =
     fs(output_file \<mapsto> universal_newlines a @ [LF] @ delimiter_block @ universal_newlines b)"
  using assms by (simp add: merge_traces_def delimiter_block_def)

text \<open>
  C1. As claimed the property fails: the code writes a line feed before the first line
  of \<open>=\<close>. Amended: for input files that both exist (empty ones too) and are not the
  output file, the output file holds the text of the first as text mode reads it, one
  line feed, the delimiter block, and the text of the second as text mode reads it,
  nothing else, and no other file changes; a text without carriage return is read as it
  is.
\<close>

theorem merge_existing_files:
  assumes "fs extension_file = Some a" "fs wait_file = Some b"
    and "output_file \<noteq> extension_file" "output_file \<noteq> wait_file"
  shows "merge_traces extension_file wait_file output_file fs =
     fs(output_file \<mapsto> universal_newlines a @ [LF] @ delimiter_block @ universal_newlines b) \<and>
   (CR \<notin> set a \<longrightarrow> CR \<notin> set b \<longrightarrow>
      merge_traces extension_file wait_file output_file fs output_file =
        Some (a @ [LF] @ delimiter_block @ b))"
  using assms by (simp add: merge_traces_def delimiter_block_def universal_newlines_id)

theorem merge_existing_files_witness:
  "merge_traces ''sql.trc'' ''waits.log'' ''out.trc'' two_files ''out.trc'' =
     Some (''X'' @ [LF] @ delimiter_block @ ''W'') \<and>
   merge_traces ''sql.trc'' ''waits.log'' ''out.trc'' empty_files ''out.trc'' =
     Some ([LF] @ delimiter_block)"
proof -
  have 1: "two_files ''sql.trc'' = Some ''X''" "two_files ''waits.log'' = Some ''W''"
    by (simp_all add: two_files_def)
  have 2: "empty_files ''sql.trc'' = Some []" "empty_files ''waits.log'' = Some []"
    by (simp_all add: empty_files_def)
  have n: "''out.trc'' \<noteq> ''sql.trc''" "''out.trc'' \<noteq> ''waits.log''"
    by simp_all
  have c: "CR \<notin> set ''X''" "CR \<notin> set ''W''" "CR \<notin> set []"
    by (simp_all add: CR_def)
  from merge_existing_files [OF 1 n] c
  have a: "merge_traces ''sql.trc'' ''waits.log'' ''out.trc'' two_files ''out.trc'' =
     Some (''X'' @ [LF] @ delimiter_block @ ''W'')"
    by blast
  from merge_existing_files [OF 2 n] c
  have b: "merge_traces ''sql.trc'' ''waits.log'' ''out.trc'' empty_files ''out.trc'' =
     Some ([] @ [LF] @ delimiter_block @ [])"
    by blast
  from a b show ?thesis by simp
qed

text \<open>
  The claim as stated is false for two empty files: the output is a line feed followed
  by the delimiter block, not the delimiter block alone.
\<close>

theorem merge_not_spec_delimiter:
  "merge_traces ''sql.trc'' ''waits.log'' ''out.trc'' empty_files ''out.trc'' =
     Some (LF # delimiter_block) \<and>
   merge_traces ''sql.trc'' ''waits.log'' ''out.trc'' empty_files ''out.trc'' \<noteq>
     Some ([] @ delimiter_block @ [])"
proof -
  have 2: "empty_files ''sql.trc'' = Some []" "empty_files ''waits.log'' = Some []"
    by (simp_all add: empty_files_def)
  have n: "''out.trc'' \<noteq> ''sql.trc''" "''out.trc'' \<noteq> ''waits.log''"
    by simp_all
  have "merge_traces ''sql.trc'' ''waits.log'' ''out.trc'' empty_files ''out.trc'' =
      Some (LF # delimiter_block)"
    by (simp add: merge_both [OF 2 n])
  moreover have "LF # delimiter_block \<noteq> delimiter_block"
    by simp
  ultimately show ?thesis by simp
qed

text \<open>
  C2. As claimed the property fails: without a wait-log file the code writes no
  delimiter block. Amended: when the SQL trace file exists, the wait-log file does not,
  and neither is the output file, the output file holds exactly the text of the SQL trace
  (as text mode reads it) and no delimiter block; the missing file is not an error.
\<close>

theorem merge_without_wait_log:
  assumes "fs extension_file = Some a" "fs wait_file = None"
    and "output_file \<noteq> extension_file" "output_file \<noteq> wait_file"
  shows "merge_traces extension_file wait_file output_file fs =
     fs(output_file \<mapsto> universal_newlines a) \<and>
   (CR \<notin> set a \<longrightarrow> merge_traces extension_file wait_file output_file fs output_file = Some a)"
  using assms by (simp add: merge_traces_def universal_newlines_id)

theorem merge_without_wait_log_witness:
  "merge_traces ''sql.trc'' ''waits.log'' ''out.trc'' sql_only ''out.trc'' = Some ''X''"
proof -
  have 1: "sql_only ''sql.trc'' = Some ''X''" "sql_only ''waits.log'' = None"
    by (simp_all add: sql_only_def)
  have n: "''out.trc'' \<noteq> ''sql.trc''" "''out.trc'' \<noteq> ''waits.log''"
    by simp_all
  have c: "CR \<notin> set ''X''"
    by (simp add: CR_def)
  from merge_without_wait_log [OF 1 n] c show ?thesis by blast
qed

text \<open>
  The claim as stated is false for the content \<open>X\<close>: the output is \<open>X\<close> alone, with
  no delimiter block after it (with or without a line feed before the block).
\<close>

theorem merge_without_wait_log_no_delimiter:
  "merge_traces ''sql.trc'' ''waits.log'' ''out.trc'' sql_only ''out.trc'' \<noteq>
     Some (''X'' @ delimiter_block) \<and>
   merge_traces ''sql.trc'' ''waits.log'' ''out.trc'' sql_only ''out.trc'' \<noteq>
     Some (''X'' @ [LF] @ delimiter_block)"
proof -
  have "merge_traces ''sql.trc'' ''waits.log'' ''out.trc'' sql_only ''out.trc'' = Some ''X''"
    by (simp add: merge_traces_def sql_only_def CR_def)
  moreover have "delimiter_block \<noteq> []"
    by (simp add: delimiter_block_def)
  ultimately show ?thesis by simp
qed

text \<open>
  C10. If the SQL trace file does not exist, \<^verbatim>\<open>main\<close> exits with code 1 and never reaches
  the monitoring loop; if it exists and no output path is given, the output path is the
  trace path followed by \<^verbatim>\<open>.complete\<close>.
\<close>

theorem missing_trace_file_exits:
  "(fs (trace_file a) = None \<longrightarrow>
      main_startup fs script_exists poll a = SysExit 1 \<and>
      (\<forall>s. main_startup fs script_exists poll a \<noteq> Running s) \<and>
      script_entry euid fs script_exists poll a = SysExit 1) \<and>
   (fs (trace_file a) \<noteq> None \<longrightarrow> output_arg a = None \<longrightarrow>
      (\<forall>s. main_startup fs script_exists poll a = Running s \<longrightarrow>
         session_output_file s = trace_file a @ ''.complete'') \<and>
      (script_exists \<longrightarrow> poll = None \<longrightarrow>
         main_startup fs script_exists poll a =
           Running \<lparr>session_output_file = trace_file a @ ''.complete'',
                    session_wait_file = ''/tmp/pg_trace_waits_'' @ str_int (pid_arg a) @ ''.log''\<rparr>))"
  by (auto simp: main_startup_def script_entry_def Let_def split: if_splits)

theorem missing_trace_file_exits_witness:
  "main_startup Map.empty True None sample_args = SysExit 1 \<and>
   main_startup sql_only True None sample_args =
     Running \<lparr>session_output_file = ''sql.trc.complete'',
              session_wait_file = ''/tmp/pg_trace_waits_4242.log''\<rparr>"
proof -
  have 1: "Map.empty (trace_file sample_args) = None" by simp
  have 2: "sql_only (trace_file sample_args) \<noteq> None"
    by (simp add: sql_only_def sample_args_def)
  have 3: "output_arg sample_args = None" by (simp add: sample_args_def)
  have d: "str_int 4242 = ''4242''"
    by (simp add: str_int_def digits.simps digit_char_def)
  from missing_trace_file_exits [of Map.empty sample_args True None 0] 1
  have a: "main_startup Map.empty True None sample_args = SysExit 1" by blast
  from missing_trace_file_exits [of sql_only sample_args True None 0] 2 3
  have "main_startup sql_only True None sample_args =
           Running \<lparr>session_output_file = trace_file sample_args @ ''.complete'',
                    session_wait_file = ''/tmp/pg_trace_waits_'' @ str_int (pid_arg sample_args) @ ''.log''\<rparr>"
    by blast
  then have b: "main_startup sql_only True None sample_args =
     Running \<lparr>session_output_file = ''sql.trc.complete'',
              session_wait_file = ''/tmp/pg_trace_waits_4242.log''\<rparr>"
    by (simp add: sample_args_def d)
  from a b show ?thesis by blast
qed

end
